theory Spec2Isabelle
  imports Complex_Main "HOL-Library.Char_ord" "HOL-Library.List_Lexorder" "HOL-Library.AList"
begin

section \<open>Python values used by the catalog orchestrator\<close>

text \<open>
  The orchestrator of the repository is given as Python in the design document
  (\<^verbatim>\<open>.kiro/specs/vernacular-artisan-catalog/design.md\<close>). A Python \<^verbatim>\<open>str\<close> is modelled
  as a \<^typ>\<open>string\<close>, one \<^typ>\<open>char\<close> per code point; the empty string is the falsy one.
\<close>

text \<open>
  The exceptions of the functions below. \<open>WrappedError\<close> is the exception of the function
  that the circuit breaker wraps, which the breaker raises again.
\<close>

datatype py_error = KeyError | TypeError | AttributeError | CircuitBreakerOpenError | WrappedError

text \<open>
  Values stored in the \<^verbatim>\<open>price\<close> dictionary of the extracted attributes: nothing, an
  integer or a string.
\<close>

datatype pyval = PyNone | PyInt int | PyStr string

type_synonym pydict = "(string \<times> pyval) list"

definition getitem :: "pydict \<Rightarrow> string \<Rightarrow> py_error + pyval" where
  "getitem d k = (case map_of d k of None \<Rightarrow> Inl KeyError | Some v \<Rightarrow> Inr v)"

text \<open>\<^verbatim>\<open>sep.join(xs)\<close>\<close>

fun join :: "string \<Rightarrow> string list \<Rightarrow> string" where
  "join sep [] = []"
| "join sep [x] = x"
| "join sep (x # y # ys) = x @ sep @ join sep (y # ys)"

text \<open>
  \<^verbatim>\<open>str(n)\<close> for an integer: decimal digits, a minus sign for a negative number. A
  digit is read from the table at an index below ten.
\<close>

definition digit_char :: "nat \<Rightarrow> char" where
  "digit_char d = ''0123456789'' ! d"

function str_nat :: "nat \<Rightarrow> string" where
  "str_nat n = (if n < 10 then [digit_char n] else str_nat (n div 10) @ [digit_char (n mod 10)])"
  by pat_completeness auto
termination
  by (relation "measure (\<lambda>n. n)") auto

declare str_nat.simps [simp del]

definition str_int :: "int \<Rightarrow> string" where
  "str_int i = (if i < 0 then CHR ''-'' # str_nat (nat (- i)) else str_nat (nat i))"

fun py_str :: "pyval \<Rightarrow> string" where
  "py_str PyNone = ''None''"
| "py_str (PyInt i) = str_int i"
| "py_str (PyStr s) = s"

text \<open>
  \<^verbatim>\<open>str.lower()\<close>: the letters A to Z are mapped to a to z. Every other character is
  left as it is (the scripts of the vernacular input have no letter case).
\<close>

definition lower_char :: "char \<Rightarrow> char" where
  "lower_char c =
     (if 65 \<le> (of_char c :: nat) \<and> (of_char c :: nat) \<le> 90
      then char_of ((of_char c :: nat) + 32) else c)"

definition lower :: "string \<Rightarrow> string" where
  "lower s = map lower_char s"

text \<open>\<^verbatim>\<open>needle in haystack\<close> on strings.\<close>

fun starts_with :: "string \<Rightarrow> string \<Rightarrow> bool" where
  "starts_with [] s = True"
| "starts_with (p # ps) [] = False"
| "starts_with (p # ps) (c # cs) = (p = c \<and> starts_with ps cs)"

fun contains :: "string \<Rightarrow> string \<Rightarrow> bool" where
  "contains needle [] = (needle = [])"
| "contains needle (c # cs) = (starts_with needle (c # cs) \<or> contains needle cs)"

section \<open>Data model\<close>

text \<open>\<^verbatim>\<open>class CSI\<close> (design.md, line 350).\<close>

record CSI =
  vernacular_term :: string
  transliteration :: string
  english_context :: string
  cultural_significance :: string

text \<open>
  \<^verbatim>\<open>class ExtractedAttributes\<close> (design.md, line 324). The dictionaries
  \<^verbatim>\<open>dimensions\<close>, \<^verbatim>\<open>weight\<close> and \<^verbatim>\<open>confidence_scores\<close> are read by none of the
  functions below and are left out.
\<close>

record ExtractedAttributes =
  category :: string
  subcategory :: string
  material :: "string list"
  colors :: "string list"
  price :: pydict
  short_description :: string
  long_description :: string
  csis :: "CSI list"
  craft_technique :: string
  region_of_origin :: string

section \<open>Schema mapper\<close>

text \<open>
  \<^verbatim>\<open>build_long_description\<close> (design.md, lines 459 to 472). \<^verbatim>\<open>parts\<close> starts as the
  one-element list holding the long description; the two later sections are appended
  under their guards; the parts are joined by a blank line.
\<close>

definition csi_line :: "CSI \<Rightarrow> string" where
  "csi_line csi =
     ''- '' @ vernacular_term csi @ '' ('' @ transliteration csi @ ''): ''
       @ english_context csi @ [CHR 0x0A]"

definition csi_section :: "CSI list \<Rightarrow> string" where
  "csi_section cs = foldl (\<lambda>acc csi. acc @ csi_line csi) (''Cultural Significance:'' @ [CHR 0x0A]) cs"

definition craft_line :: "string \<Rightarrow> string" where
  "craft_line t = ''Craft Technique: '' @ t"

definition description_parts :: "ExtractedAttributes \<Rightarrow> string list" where
  "description_parts extracted =
     [long_description extracted]
     @ (if csis extracted \<noteq> [] then [csi_section (csis extracted)] else [])
     @ (if craft_technique extracted \<noteq> [] then [craft_line (craft_technique extracted)] else [])"

definition build_long_description :: "ExtractedAttributes \<Rightarrow> string" where
  "build_long_description extracted = join [CHR 0x0A, CHR 0x0A] (description_parts extracted)"

text \<open>
  \<^verbatim>\<open>map_category_to_ondc\<close> (design.md, lines 474 to 482): the table as the source
  writes it, and \<^verbatim>\<open>dict.get\<close> with its default.
\<close>

definition category_mapping :: "(string \<times> string) list" where
  "category_mapping =
     [(''handloom saree'', ''Fashion:Ethnic Wear:Sarees''),
      (''pottery'', ''Home & Decor:Handicrafts:Pottery''),
      (''jewelry'', ''Fashion:Jewelry:Handcrafted'')]"

definition dict_get :: "(string \<times> 'v) list \<Rightarrow> string \<Rightarrow> 'v \<Rightarrow> 'v" where
  "dict_get d k dflt = (case map_of d k of None \<Rightarrow> dflt | Some v \<Rightarrow> v)"

definition map_category_to_ondc :: "string \<Rightarrow> string" where
  "map_category_to_ondc cat = dict_get category_mapping (lower cat) ''General:Handicrafts''"

text \<open>
  \<^verbatim>\<open>generate_item_id\<close> (design.md, lines 529 to 543). \<^verbatim>\<open>sorted\<close> orders strings
  by code point, which is the lexicographic order of \<^typ>\<open>string\<close>. The digest
  \<^verbatim>\<open>hashlib.sha256(s.encode()).hexdigest()\<close> belongs to the Python library and is the
  parameter \<open>sha256_hexdigest\<close>. Reading \<^verbatim>\<open>price['value']\<close> raises \<^verbatim>\<open>KeyError\<close> when the
  key is missing.
\<close>

definition id_components :: "ExtractedAttributes \<Rightarrow> py_error + string list" where
  "id_components extracted =
     (case getitem (price extracted) ''value'' of
        Inl err \<Rightarrow> Inl err
      | Inr v \<Rightarrow>
          Inr [category extracted,
               subcategory extracted,
               join '','' (sort (material extracted)),
               join '','' (sort (colors extracted)),
               py_str v])"

definition hash_input :: "ExtractedAttributes \<Rightarrow> py_error + string" where
  "hash_input extracted =
     (case id_components extracted of Inl err \<Rightarrow> Inl err | Inr cs \<Rightarrow> Inr (join ''|'' cs))"

definition generate_item_id :: "(string \<Rightarrow> string) \<Rightarrow> ExtractedAttributes \<Rightarrow> py_error + string" where
  "generate_item_id sha256_hexdigest extracted =
     (case hash_input extracted of
        Inl err \<Rightarrow> Inl err
      | Inr s \<Rightarrow> Inr (''item_'' @ take 16 (sha256_hexdigest s)))"

text \<open>
  \<^verbatim>\<open>class ONDCCatalogItem\<close>, \<^verbatim>\<open>class ItemDescriptor\<close> (design.md, line 360) and the
  \<^verbatim>\<open>Price\<close> object, with the fields the mapper writes and the validator reads. The
  fields \<^verbatim>\<open>id\<close>, \<^verbatim>\<open>name\<close>, \<^verbatim>\<open>price\<close> and \<^verbatim>\<open>value\<close> carry a prefix here. The validator
  tests \<^verbatim>\<open>payload.price\<close> and \<^verbatim>\<open>payload.price.value\<close> for truth, so both may be absent.
\<close>

record ItemDescriptor =
  item_name :: string
  short_desc :: string
  long_desc :: string
  images :: "string list"

record Price =
  currency :: pyval
  price_value :: "string option"

record ONDCCatalogItem =
  item_id :: string
  descriptor :: ItemDescriptor
  item_price :: "Price option"
  category_id :: string
  tags :: "(string \<times> string) list"

text \<open>
  \<^verbatim>\<open>map_to_beckn_item\<close> (design.md, lines 436 to 457). The helpers
  \<^verbatim>\<open>get_image_urls\<close> and \<^verbatim>\<open>map_csis_to_tags\<close> are not in the repository and are
  parameters. The arguments of the constructor are evaluated in the order written, so
  the first failing dictionary read decides the exception. The entries of
  \<^verbatim>\<open>**map_csis_to_tags(...)\<close> overwrite the four literal keys of \<^verbatim>\<open>tags\<close>.
\<close>

definition map_to_beckn_item ::
  "(string \<Rightarrow> string) \<Rightarrow> (ExtractedAttributes \<Rightarrow> string list) \<Rightarrow> (CSI list \<Rightarrow> (string \<times> string) list)
     \<Rightarrow> ExtractedAttributes \<Rightarrow> py_error + ONDCCatalogItem" where
  "map_to_beckn_item sha256_hexdigest get_image_urls map_csis_to_tags extracted =
     (case generate_item_id sha256_hexdigest extracted of
        Inl err \<Rightarrow> Inl err
      | Inr new_id \<Rightarrow>
     (case getitem (price extracted) ''currency'' of
        Inl err \<Rightarrow> Inl err
      | Inr cur \<Rightarrow>
     (case getitem (price extracted) ''value'' of
        Inl err \<Rightarrow> Inl err
      | Inr v \<Rightarrow>
          Inr \<lparr>item_id = new_id,
               descriptor = \<lparr>item_name = take 100 (short_description extracted),
                             short_desc = short_description extracted,
                             long_desc = build_long_description extracted,
                             images = get_image_urls extracted\<rparr>,
               item_price = Some \<lparr>currency = cur, price_value = Some (py_str v)\<rparr>,
               category_id = map_category_to_ondc (category extracted),
               tags = fold (\<lambda>(k, x). AList.update k x) (map_csis_to_tags (csis extracted))
                        [(''material'', join '','' (material extracted)),
                         (''color'', join '','' (colors extracted)),
                         (''craft_technique'', craft_technique extracted),
                         (''region'', region_of_origin extracted)]\<rparr>)))"

section \<open>Validator\<close>

record ValidationResult =
  is_valid :: bool
  errors :: "string list"

text \<open>
  \<^verbatim>\<open>validate_ondc_payload\<close> (design.md, lines 488 to 524). The helpers
  \<^verbatim>\<open>is_valid_price\<close> and \<^verbatim>\<open>is_valid_url\<close> are not in the repository and are parameters.
  The format check of line 502 reads \<^verbatim>\<open>payload.price.value\<close> with no guard on
  \<^verbatim>\<open>payload.price\<close>: on a payload without a price object it raises \<^verbatim>\<open>AttributeError\<close>.
\<close>

definition truthy :: "string option \<Rightarrow> bool" where
  "truthy v = (case v of None \<Rightarrow> False | Some s \<Rightarrow> s \<noteq> [])"

definition required_errors :: "ONDCCatalogItem \<Rightarrow> string list" where
  "required_errors payload =
     (if item_name (descriptor payload) = [] then [''descriptor.name is required''] else [])
     @ (if (case item_price payload of None \<Rightarrow> True | Some pr \<Rightarrow> \<not> truthy (price_value pr))
        then [''price.value is required''] else [])
     @ (if category_id payload = [] then [''category_id is required''] else [])"

definition format_errors :: "(string \<Rightarrow> bool) \<Rightarrow> Price \<Rightarrow> string list" where
  "format_errors is_valid_price pr =
     (case price_value pr of
        None \<Rightarrow> []
      | Some s \<Rightarrow> if s \<noteq> [] \<and> \<not> is_valid_price s then [''price.value must be numeric string''] else [])"

definition length_errors :: "ONDCCatalogItem \<Rightarrow> string list" where
  "length_errors payload =
     (if length (item_name (descriptor payload)) > 100
      then [''descriptor.name must be <= 100 characters''] else [])
     @ (if length (short_desc (descriptor payload)) > 500
        then [''descriptor.short_desc must be <= 500 characters''] else [])"

definition image_errors :: "(string \<Rightarrow> bool) \<Rightarrow> ONDCCatalogItem \<Rightarrow> string list" where
  "image_errors is_valid_url payload =
     (if images (descriptor payload) = [] then [''At least one image is required''] else [])
     @ map (\<lambda>img_url. ''Invalid image URL: '' @ img_url)
         (filter (\<lambda>img_url. \<not> is_valid_url img_url) (images (descriptor payload)))"

definition validate_ondc_payload ::
  "(string \<Rightarrow> bool) \<Rightarrow> (string \<Rightarrow> bool) \<Rightarrow> ONDCCatalogItem \<Rightarrow> py_error + ValidationResult" where
  "validate_ondc_payload is_valid_price is_valid_url payload =
     (case item_price payload of
        None \<Rightarrow> Inl AttributeError
      | Some pr \<Rightarrow>
          (let errs = required_errors payload @ format_errors is_valid_price pr
                        @ length_errors payload @ image_errors is_valid_url payload
           in Inr \<lparr>is_valid = (length errs = 0), errors = errs\<rparr>))"

text \<open>
  Modelled from the spec: the orchestrator that stands between the validator and the
  marketplace gateway is not in the repository. Section 4.3 of the specification makes
  a validation failure a hard rejection with no submission attempted, so the payloads
  handed to the gateway are the validated ones: the list is empty when the validator
  raises or returns \<^verbatim>\<open>is_valid = False\<close>.
\<close>

definition payloads_submitted ::
  "(string \<Rightarrow> bool) \<Rightarrow> (string \<Rightarrow> bool) \<Rightarrow> ONDCCatalogItem \<Rightarrow> ONDCCatalogItem list" where
  "payloads_submitted is_valid_price is_valid_url payload =
     (case validate_ondc_payload is_valid_price is_valid_url payload of
        Inl err \<Rightarrow> []
      | Inr res \<Rightarrow> if is_valid res then [payload] else [])"

section \<open>Processing record and error handlers\<close>

text \<open>\<^verbatim>\<open>enum ProcessingStatus\<close> (design.md, line 313).\<close>

datatype ProcessingStatus = PENDING | IN_PROGRESS | COMPLETED | FAILED | SKIPPED

text \<open>
  The two shapes of dictionary that \<^verbatim>\<open>handle_asr_error\<close> stores in \<^verbatim>\<open>asr_result\<close>,
  and the result of a transcription that succeeded.
\<close>

datatype asr_result =
    Transcription (transcription: string) (confidence: rat)
  | AsrFailure (error_code: string) (fallback: string)

text \<open>
  \<^verbatim>\<open>class CatalogProcessingRecord\<close> (design.md, line 285), with the fields the handlers
  read or write. \<^verbatim>\<open>ondc_catalog_id\<close> is \<open>None\<close> until the network assigns an
  identifier.
\<close>

record CatalogProcessingRecord =
  tracking_id :: string
  asr_status :: ProcessingStatus
  asr_result :: "asr_result option"
  vision_status :: ProcessingStatus
  extraction_status :: ProcessingStatus
  mapping_status :: ProcessingStatus
  ondc_payload :: "ONDCCatalogItem option"
  submission_status :: ProcessingStatus
  ondc_catalog_id :: "string option"

text \<open>
  What a handler does beyond writing the record: the messages it publishes, the
  notifications it sends, the log lines it writes and the collaborators it calls, in
  the order of the calls.
\<close>

datatype effect =
    QueuePublish string string
  | QueuePublishWithDelay string nat
  | NotifyManualReview string "string list"
  | LoggerError string
  | AutoCorrectCalled
  | AuditLogFailure string
  | NotifyArtisan string string

datatype asr_exception = ModelTimeoutError | UnsupportedLanguageError | OtherAsrError string

text \<open>\<^verbatim>\<open>ProcessingErrorHandler.handle_asr_error\<close> (design.md, lines 922 to 936).\<close>

fun handle_asr_error ::
  "'a CatalogProcessingRecord_scheme \<Rightarrow> asr_exception
     \<Rightarrow> 'a CatalogProcessingRecord_scheme \<times> effect list" where
  "handle_asr_error record ModelTimeoutError =
     (record\<lparr>asr_status := PENDING\<rparr>, [QueuePublish (tracking_id record) ''high''])"
| "handle_asr_error record UnsupportedLanguageError =
     (record\<lparr>asr_status := FAILED,
             asr_result := Some (AsrFailure ''unsupported_language'' ''manual'')\<rparr>,
      [NotifyManualReview (tracking_id record) []])"
| "handle_asr_error record (OtherAsrError msg) =
     (record\<lparr>asr_status := SKIPPED, asr_result := Some (Transcription [] 0)\<rparr>,
      [LoggerError (tracking_id record)])"

text \<open>
  \<^verbatim>\<open>ProcessingErrorHandler.handle_validation_error\<close> (design.md, lines 938 to 948).
  \<^verbatim>\<open>auto_correct\<close> is not in the repository and is a parameter; a falsy result is
  \<open>None\<close>.
\<close>

definition handle_validation_error ::
  "(ONDCCatalogItem option \<Rightarrow> string list \<Rightarrow> ONDCCatalogItem option)
     \<Rightarrow> 'a CatalogProcessingRecord_scheme \<Rightarrow> string list
     \<Rightarrow> 'a CatalogProcessingRecord_scheme \<times> effect list" where
  "handle_validation_error auto_correct record errs =
     (case auto_correct (ondc_payload record) errs of
        Some corrected_payload \<Rightarrow>
          (record\<lparr>ondc_payload := Some corrected_payload, mapping_status := COMPLETED\<rparr>,
           [AutoCorrectCalled])
      | None \<Rightarrow>
          (record\<lparr>mapping_status := FAILED\<rparr>,
           [AutoCorrectCalled, NotifyManualReview (tracking_id record) errs]))"

text \<open>
  Modelled from the spec: \<^verbatim>\<open>auto_correct\<close> is not in the repository. Section 4.3 names
  truncation as a correction of a length overflow; this corrector truncates the name to
  100 and the short description to 500 characters and returns the payload.
\<close>

definition auto_correct_truncate :: "ONDCCatalogItem option \<Rightarrow> string list \<Rightarrow> ONDCCatalogItem option" where
  "auto_correct_truncate payload errs =
     (case payload of
        None \<Rightarrow> None
      | Some p \<Rightarrow>
          Some (p\<lparr>descriptor := (descriptor p)\<lparr>item_name := take 100 (item_name (descriptor p)),
                                                short_desc := take 500 (short_desc (descriptor p))\<rparr>\<rparr>))"

text \<open>
  \<^verbatim>\<open>ONDCErrorHandler\<close> (design.md, lines 953 to 980). \<^verbatim>\<open>parse_validation_errors\<close> is
  not in the repository and is a parameter. The validation branch calls
  \<^verbatim>\<open>handle_validation_error\<close>, the method of the processing error handler above.
\<close>

record ONDCResponse =
  status_code :: int
  body :: string

datatype error_category = RETRYABLE | VALIDATION_ERROR | PERMANENT

definition categorize_error :: "ONDCResponse \<Rightarrow> error_category" where
  "categorize_error response =
     (if status_code response \<ge> 500 then RETRYABLE
      else if status_code response = 429 then RETRYABLE
      else if status_code response = 400 \<and> contains ''validation'' (body response) then VALIDATION_ERROR
      else PERMANENT)"

definition handle_submission_error ::
  "(ONDCCatalogItem option \<Rightarrow> string list \<Rightarrow> ONDCCatalogItem option)
     \<Rightarrow> (ONDCResponse \<Rightarrow> string list)
     \<Rightarrow> 'a CatalogProcessingRecord_scheme \<Rightarrow> ONDCResponse
     \<Rightarrow> 'a CatalogProcessingRecord_scheme \<times> effect list" where
  "handle_submission_error auto_correct parse_validation_errors record response =
     (case categorize_error response of
        RETRYABLE \<Rightarrow>
          (record\<lparr>submission_status := PENDING\<rparr>, [QueuePublishWithDelay (tracking_id record) 60])
      | VALIDATION_ERROR \<Rightarrow>
          handle_validation_error auto_correct record (parse_validation_errors response)
      | PERMANENT \<Rightarrow>
          (record\<lparr>submission_status := FAILED\<rparr>,
           [AuditLogFailure (tracking_id record), NotifyArtisan (tracking_id record) ''submission_failed'']))"

section \<open>Circuit breaker\<close>












section \<open>Attribute resolver\<close>

text \<open>
  Modelled from the spec: the two interpretations of one record that the resolver
  combines (section 4.2), each giving values to the names of the attributes it has.
\<close>

datatype attr_value = AttrStr string | AttrList "string list" | AttrDict pydict

type_synonym interp = "(string \<times> attr_value) list"

text \<open>
  Modelled from the spec: the attribute extractor and resolver is not in the repository
  (the design document states its rule as Property 19 and holds no code for it).
  Section 4.2 of the specification: for any attribute present in both the voice-derived
  and the vision-derived interpretation the voice-derived value wins and is placed in
  the output; the vision-derived value is discarded for that field but may still be
  used for fields voice did not mention. The output keeps every voice entry and the
  vision entries of the names voice does not mention.
\<close>

definition resolve_attributes :: "interp \<Rightarrow> interp \<Rightarrow> interp" where
  "resolve_attributes voice vision =
     voice @ filter (\<lambda>(field, v). map_of voice field = None) vision"

section \<open>Submission manager\<close>

text \<open>
  Modelled from the spec: the submission manager is not in the repository; of its code
  only \<^verbatim>\<open>handle_submission_error\<close> above is. Section 3 of the specification gives the
  record a \<^verbatim>\<open>version\<close>, incremented on every update, next to the catalog identifier;
  the idempotency key of section 4.4 is kept with the record.
\<close>

record StoredRecord = CatalogProcessingRecord +
  idempotency_key :: string
  version :: nat

text \<open>
  Modelled from the spec: the reply of the marketplace gateway to one submission, the
  catalog identifier of an accepted one or the error response of a rejected one
  (section 6).
\<close>

datatype gateway_reply = Accepted string | Rejected ONDCResponse

text \<open>
  Modelled from the spec: section 4.4, before submitting the manager looks in the
  record store for an existing record with the same idempotency key and a populated
  identifier.
\<close>

definition find_existing :: "StoredRecord list \<Rightarrow> string \<Rightarrow> StoredRecord option" where
  "find_existing store key =
     find (\<lambda>r. idempotency_key r = key \<and> ondc_catalog_id r \<noteq> None) store"

text \<open>
  Modelled from the spec: one submission of a record. Section 3: the identifier is set
  once, on the first successful submission, and never overwritten on a retry or an
  update, so a record that has its identifier keeps it and an accepted resubmission is
  an update of it. Section 4.4: if the lookup finds a record, the submission is an
  update that carries the original identifier forward unchanged and increments the
  version; otherwise it is a creation, and the identifier is the one the gateway
  returns. A rejected submission goes to the error handler of the source.
\<close>

definition submit ::
  "(ONDCCatalogItem option \<Rightarrow> string list \<Rightarrow> ONDCCatalogItem option)
     \<Rightarrow> (ONDCResponse \<Rightarrow> string list)
     \<Rightarrow> StoredRecord list \<Rightarrow> StoredRecord \<Rightarrow> gateway_reply \<Rightarrow> StoredRecord \<times> effect list" where
  "submit auto_correct parse_validation_errors store record reply =
     (case reply of
        Rejected response \<Rightarrow>
          handle_submission_error auto_correct parse_validation_errors record response
      | Accepted returned_id \<Rightarrow>
          (case ondc_catalog_id record of
             Some own_id \<Rightarrow>
               (record\<lparr>submission_status := COMPLETED, version := Suc (version record)\<rparr>, [])
           | None \<Rightarrow>
               (case find_existing store (idempotency_key record) of
                  Some original \<Rightarrow>
                    (record\<lparr>submission_status := COMPLETED,
                            ondc_catalog_id := ondc_catalog_id original,
                            version := Suc (version original)\<rparr>, [])
                | None \<Rightarrow>
                    (record\<lparr>submission_status := COMPLETED,
                            ondc_catalog_id := Some returned_id\<rparr>, []))))"

text \<open>
  Modelled from the spec: the record store serving one submission, which names the
  record by its tracking identifier and carries the reply of the gateway; the other
  records are left as they are.
\<close>

definition submit_in_store ::
  "(ONDCCatalogItem option \<Rightarrow> string list \<Rightarrow> ONDCCatalogItem option)
     \<Rightarrow> (ONDCResponse \<Rightarrow> string list)
     \<Rightarrow> StoredRecord list \<Rightarrow> string \<times> gateway_reply \<Rightarrow> StoredRecord list" where
  "submit_in_store auto_correct parse_validation_errors store ev =
     map (\<lambda>r. if tracking_id r = fst ev
               then fst (submit auto_correct parse_validation_errors store r (snd ev)) else r) store"

text \<open>Modelled from the spec: the record store serving a sequence of submissions.\<close>

definition run_submissions ::
  "(ONDCCatalogItem option \<Rightarrow> string list \<Rightarrow> ONDCCatalogItem option)
     \<Rightarrow> (ONDCResponse \<Rightarrow> string list)
     \<Rightarrow> StoredRecord list \<Rightarrow> (string \<times> gateway_reply) list \<Rightarrow> StoredRecord list" where
  "run_submissions auto_correct parse_validation_errors store evs =
     foldl (submit_in_store auto_correct parse_validation_errors) store evs"

section \<open>Concrete inputs\<close>

text \<open>
  The inputs at which the theorems below are exercised: one set of extracted attributes,
  a price check that accepts strings of decimal digits and a URL check that accepts
  strings starting with \<^verbatim>\<open>http\<close>, a processing record, a mapped item without images,
  two breakers, the two interpretations of the scenario of the specification, and two
  stored records with the same idempotency key.
\<close>

definition example_attributes :: ExtractedAttributes where
  "example_attributes =
     \<lparr>category = ''Pottery'', subcategory = ''Terracotta'',
      material = [''clay''], colors = [''red'', ''brown''],
      price = [(''value'', PyInt 2500), (''currency'', PyStr ''INR'')],
      short_description = ''Hand-thrown terracotta pot'',
      long_description = ''A terracotta pot thrown by hand.'',
      csis = [], craft_technique = ''Wheel thrown'', region_of_origin = ''Molela''\<rparr>"

definition digits_only :: "string \<Rightarrow> bool" where
  "digits_only s = list_all (\<lambda>c. 48 \<le> (of_char c :: nat) \<and> (of_char c :: nat) \<le> 57) s"

definition http_url :: "string \<Rightarrow> bool" where
  "http_url u = starts_with ''http'' u"

definition example_record :: CatalogProcessingRecord where
  "example_record =
     \<lparr>tracking_id = ''trk-1'', asr_status = IN_PROGRESS, asr_result = None,
      vision_status = COMPLETED, extraction_status = PENDING, mapping_status = PENDING,
      ondc_payload = None, submission_status = PENDING, ondc_catalog_id = None\<rparr>"

definition example_item_no_images :: ONDCCatalogItem where
  "example_item_no_images =
     \<lparr>item_id = ''item_0123456789abcdef'',
      descriptor = \<lparr>item_name = ''Hand-thrown terracotta pot'',
                    short_desc = ''Hand-thrown terracotta pot'',
                    long_desc = ''A terracotta pot thrown by hand.'',
                    images = []\<rparr>,
      item_price = Some \<lparr>currency = PyStr ''INR'', price_value = Some ''2500''\<rparr>,
      category_id = ''Home & Decor:Handicrafts:Pottery'',
      tags = []\<rparr>"



definition voice_reading :: interp where
  "voice_reading =
     [(''category'', AttrStr ''banarasi saree''),
      (''price'', AttrDict [(''value'', PyInt 2500), (''currency'', PyStr ''INR'')])]"

definition vision_reading :: interp where
  "vision_reading = [(''category'', AttrStr ''sari''), (''colors'', AttrList [''red''])]"

definition stored_original :: StoredRecord where
  "stored_original =
     \<lparr>tracking_id = ''trk-1'', asr_status = COMPLETED, asr_result = None,
      vision_status = COMPLETED, extraction_status = COMPLETED, mapping_status = COMPLETED,
      ondc_payload = None, submission_status = COMPLETED, ondc_catalog_id = Some ''ondc-77'',
      idempotency_key = ''item_0123456789abcdef'', version = 1\<rparr>"

definition stored_resubmission :: StoredRecord where
  "stored_resubmission =
     \<lparr>tracking_id = ''trk-2'', asr_status = COMPLETED, asr_result = None,
      vision_status = COMPLETED, extraction_status = COMPLETED, mapping_status = COMPLETED,
      ondc_payload = None, submission_status = PENDING, ondc_catalog_id = None,
      idempotency_key = ''item_0123456789abcdef'', version = 0\<rparr>"

definition no_validation_errors :: "ONDCResponse \<Rightarrow> string list" where
  "no_validation_errors response = []"

section \<open>Schema mapper: category lookup and long description\<close>

lemma lower_char_idem: "lower_char (lower_char c) = lower_char c"
  by (simp add: lower_char_def)

lemma lower_idem: "lower (lower s) = lower s"
  by (simp add: lower_def lower_char_idem)

lemma dict_get_nonempty:
  "\<forall>v \<in> snd ` set d. v \<noteq> [] \<Longrightarrow> dflt \<noteq> [] \<Longrightarrow> dict_get d k dflt \<noteq> []"
  by (auto simp: dict_get_def split: option.splits dest!: map_of_SomeD)

lemma map_category_nonempty: "map_category_to_ondc cat \<noteq> []"
  unfolding map_category_to_ondc_def
  by (rule dict_get_nonempty) (simp_all add: category_mapping_def)

lemma mapped_item_category:
  "map_to_beckn_item h g m e = Inr item \<Longrightarrow> category_id item = map_category_to_ondc (category e)"
  by (auto simp: map_to_beckn_item_def split: sum.splits)

lemma mapped_item_price:
  "map_to_beckn_item h g m e = Inr item \<Longrightarrow> \<exists>pr. item_price item = Some pr"
  by (auto simp: map_to_beckn_item_def split: sum.splits)

lemma category_error_required:
  "(''category_id is required'' \<in> set (required_errors p)) = (category_id p = [])"
  by (simp add: required_errors_def)

lemma category_error_format: "''category_id is required'' \<notin> set (format_errors ivp pr)"
  by (simp add: format_errors_def split: option.splits)

lemma category_error_length: "''category_id is required'' \<notin> set (length_errors p)"
  by (simp add: length_errors_def)

lemma category_error_image: "''category_id is required'' \<notin> set (image_errors ivu p)"
  by (auto simp: image_errors_def)

lemma validate_errors:
  "validate_ondc_payload ivp ivu p = Inr res \<Longrightarrow>
     \<exists>pr. item_price p = Some pr \<and>
       errors res = required_errors p @ format_errors ivp pr @ length_errors p @ image_errors ivu p
       \<and> is_valid res = (errors res = [])"
  by (auto simp: validate_ondc_payload_def Let_def split: option.splits)

lemma category_error_iff:
  "validate_ondc_payload ivp ivu p = Inr res \<Longrightarrow>
     (''category_id is required'' \<in> set (errors res)) = (category_id p = [])"
  using category_error_required [of p] category_error_format category_error_length category_error_image
  by (auto dest!: validate_errors)

lemma example_hash_input: "hash_input example_attributes = Inr ''Pottery|Terracotta|clay|brown,red|2500''"
  by (simp add: hash_input_def id_components_def getitem_def example_attributes_def
        str_int_def str_nat.simps digit_char_def)

lemma csi_section_concat:
  "csi_section cs = ''Cultural Significance:'' @ [CHR 0x0A] @ concat (map csi_line cs)"
proof -
  have "foldl (\<lambda>acc csi. acc @ csi_line csi) a cs = a @ concat (map csi_line cs)" for a
    by (induction cs arbitrary: a) simp_all
  then show ?thesis by (simp add: csi_section_def)
qed

text \<open>
  C10. For every category string, \<open>map_category_to_ondc\<close> gives the result it gives
  for the lowercased string; the result is never empty, and it is the fallback
  \<^verbatim>\<open>General:Handicrafts\<close> when the table has no entry for the lowercased string. So
  the validator never reports \<^verbatim>\<open>category_id is required\<close> on an item produced by
  the mapper.
\<close>

theorem map_category_to_ondc_case_insensitive_nonempty:
  "map_category_to_ondc cat = map_category_to_ondc (lower cat)
   \<and> map_category_to_ondc cat \<noteq> []
   \<and> (map_of category_mapping (lower cat) = None \<longrightarrow> map_category_to_ondc cat = ''General:Handicrafts'')
   \<and> (\<forall>item res. map_to_beckn_item h g m (e\<lparr>category := cat\<rparr>) = Inr item
         \<and> validate_ondc_payload ivp ivu item = Inr res
        \<longrightarrow> ''category_id is required'' \<notin> set (errors res))"
proof -
  have a: "map_category_to_ondc cat = map_category_to_ondc (lower cat)"
    by (simp add: map_category_to_ondc_def lower_idem)
  have b: "map_category_to_ondc cat \<noteq> []" by (rule map_category_nonempty)
  have c: "map_of category_mapping (lower cat) = None \<longrightarrow> map_category_to_ondc cat = ''General:Handicrafts''"
    by (simp add: map_category_to_ondc_def dict_get_def)
  have d: "''category_id is required'' \<notin> set (errors res)"
    if "map_to_beckn_item h g m (e\<lparr>category := cat\<rparr>) = Inr item"
      and "validate_ondc_payload ivp ivu item = Inr res" for item res
    using that mapped_item_category[OF that(1)] category_error_iff[OF that(2)] map_category_nonempty
    by simp
  from a b c d show ?thesis by blast
qed

theorem map_category_to_ondc_case_insensitive_nonempty_witness:
  "map_category_to_ondc ''POTTERY'' = map_category_to_ondc (lower ''POTTERY'')
   \<and> map_category_to_ondc ''POTTERY'' = ''Home & Decor:Handicrafts:Pottery''
   \<and> map_of category_mapping (lower ''Toys'') = None
   \<and> map_category_to_ondc ''Toys'' = ''General:Handicrafts''
   \<and> (\<exists>item res.
         map_to_beckn_item (\<lambda>s. s) (\<lambda>e. [''https://cdn/pot.jpg'']) (\<lambda>cs. [])
             (example_attributes\<lparr>category := ''POTTERY''\<rparr>) = Inr item
         \<and> validate_ondc_payload digits_only http_url item = Inr res
         \<and> ''category_id is required'' \<notin> set (errors res))"
proof -
  note main = map_category_to_ondc_case_insensitive_nonempty
    [of "''POTTERY''" "\<lambda>s. s" "\<lambda>e. [''https://cdn/pot.jpg'']" "\<lambda>cs. []" example_attributes
        digits_only http_url]
  note fallback = map_category_to_ondc_case_insensitive_nonempty [of "''Toys''"]
  have none: "map_of category_mapping (lower ''Toys'') = None"
    by code_simp
  have val: "map_category_to_ondc ''POTTERY'' = ''Home & Decor:Handicrafts:Pottery''"
    by code_simp
  obtain item where item:
    "map_to_beckn_item (\<lambda>s. s) (\<lambda>e. [''https://cdn/pot.jpg'']) (\<lambda>cs. [])
       (example_attributes\<lparr>category := ''POTTERY''\<rparr>) = Inr item"
    by (simp add: map_to_beckn_item_def generate_item_id_def hash_input_def id_components_def
          getitem_def example_attributes_def)
  obtain res where res: "validate_ondc_payload digits_only http_url item = Inr res"
    using mapped_item_price [OF item] by (auto simp: validate_ondc_payload_def Let_def)
  from main item res have "''category_id is required'' \<notin> set (errors res)" by blast
  with item res main fallback none val show ?thesis by blast
qed

text \<open>
  C8, as the code has it. \<open>build_long_description\<close> is the long description, then
  (only when there are CSIs) a blank line and the section \<^verbatim>\<open>Cultural Significance:\<close>
  with one line \<^verbatim>\<open>- term (transliteration): context\<close> for each CSI, then (only when
  the craft technique is not empty) a blank line and the craft technique line. The
  long description is always the first part, also when it is empty.
\<close>

theorem build_long_description_sections:
  "build_long_description e =
     long_description e
     @ (if csis e \<noteq> []
        then [CHR 0x0A, CHR 0x0A] @ ''Cultural Significance:'' @ [CHR 0x0A] @ concat (map csi_line (csis e))
        else [])
     @ (if craft_technique e \<noteq> []
        then [CHR 0x0A, CHR 0x0A] @ ''Craft Technique: '' @ craft_technique e else [])"
  by (simp add: build_long_description_def description_parts_def csi_section_concat craft_line_def)

theorem build_long_description_sections_witness:
  "build_long_description example_attributes =
     ''A terracotta pot thrown by hand.'' @ [CHR 0x0A, CHR 0x0A] @ ''Craft Technique: Wheel thrown''"
  using build_long_description_sections [of example_attributes]
  by (simp add: example_attributes_def)

text \<open>
  C8 as stated fails: with an empty long description and a craft technique, the output
  starts with the separator, so the empty long description is a part of the join and is
  not left out.
\<close>

theorem build_long_description_empty_part_counterexample:
  "build_long_description (example_attributes\<lparr>long_description := []\<rparr>)
     = [CHR 0x0A, CHR 0x0A] @ ''Craft Technique: Wheel thrown''
   \<and> build_long_description (example_attributes\<lparr>long_description := []\<rparr>)
     \<noteq> join [CHR 0x0A, CHR 0x0A] [craft_line ''Wheel thrown'']"
  by (simp add: build_long_description_def description_parts_def craft_line_def example_attributes_def)

section \<open>Schema mapper: item identifier and mapping\<close>

lemma generate_item_id_hash_input:
  "hash_input a = hash_input b \<Longrightarrow> generate_item_id sha a = generate_item_id sha b"
  by (simp add: generate_item_id_def)

lemma hash_input_components:
  "category a = category b \<Longrightarrow> subcategory a = subcategory b
   \<Longrightarrow> sort (material a) = sort (material b) \<Longrightarrow> sort (colors a) = sort (colors b)
   \<Longrightarrow> getitem (price a) ''value'' = getitem (price b) ''value''
   \<Longrightarrow> hash_input a = hash_input b"
  unfolding hash_input_def id_components_def by (elim subst) (rule refl)

text \<open>
  C2, as the code has it. The item identifier is a function of the string that joins, with
  \<^verbatim>\<open>|\<close>, the category, the subcategory, the sorted materials joined by commas, the
  sorted colours joined by commas and \<^verbatim>\<open>str(price['value'])\<close>: two values that agree on
  the five components, or on the joined string, have the same identifier under every
  digest. Nothing is promised for values that differ.
\<close>

theorem generate_item_id_deterministic:
  "(category a = category b \<and> subcategory a = subcategory b
      \<and> sort (material a) = sort (material b) \<and> sort (colors a) = sort (colors b)
      \<and> getitem (price a) ''value'' = getitem (price b) ''value''
     \<longrightarrow> generate_item_id sha a = generate_item_id sha b)
   \<and> (hash_input a = hash_input b \<longrightarrow> generate_item_id sha a = generate_item_id sha b)"
  using generate_item_id_hash_input [of a b sha] hash_input_components [of a b] by blast

theorem generate_item_id_deterministic_witness:
  "generate_item_id (\<lambda>s. s) example_attributes
     = generate_item_id (\<lambda>s. s)
         (example_attributes\<lparr>colors := [''brown'', ''red''], short_description := ''Another pot''\<rparr>)
   \<and> generate_item_id (\<lambda>s. s) example_attributes = Inr ''item_Pottery|Terracot''
   \<and> hash_input (example_attributes\<lparr>category := ''Pot|Clay'', subcategory := ''Red''\<rparr>)
        = hash_input (example_attributes\<lparr>category := ''Pot'', subcategory := ''Clay|Red''\<rparr>)
   \<and> generate_item_id (\<lambda>s. s) (example_attributes\<lparr>category := ''Pot|Clay'', subcategory := ''Red''\<rparr>)
        = generate_item_id (\<lambda>s. s) (example_attributes\<lparr>category := ''Pot'', subcategory := ''Clay|Red''\<rparr>)"
proof -
  let ?b = "example_attributes\<lparr>colors := [''brown'', ''red''], short_description := ''Another pot''\<rparr>"
  let ?c = "example_attributes\<lparr>category := ''Pot|Clay'', subcategory := ''Red''\<rparr>"
  let ?d = "example_attributes\<lparr>category := ''Pot'', subcategory := ''Clay|Red''\<rparr>"
  have "sort (colors example_attributes) = sort (colors ?b)"
    by (simp add: example_attributes_def)
  then have 1: "generate_item_id (\<lambda>s. s) example_attributes = generate_item_id (\<lambda>s. s) ?b"
    using generate_item_id_deterministic [of example_attributes ?b "\<lambda>s. s"] by simp
  have 2: "generate_item_id (\<lambda>s. s) example_attributes = Inr ''item_Pottery|Terracot''"
    by (simp add: generate_item_id_def example_hash_input)
  have 3: "hash_input ?c = hash_input ?d"
    by (simp add: hash_input_def id_components_def getitem_def example_attributes_def)
  then have 4: "generate_item_id (\<lambda>s. s) ?c = generate_item_id (\<lambda>s. s) ?d"
    using generate_item_id_deterministic [of ?c ?d "\<lambda>s. s"] by blast
  from 1 2 3 4 show ?thesis by (intro conjI)
qed

text \<open>
  C2 as stated fails: the one material \<^verbatim>\<open>silk,zari\<close> and the two materials
  \<^verbatim>\<open>silk\<close>, \<^verbatim>\<open>zari\<close> are different sorted lists, the other four components agree,
  and the identifiers are equal whatever the digest is, since the joined strings are equal.
\<close>

theorem generate_item_id_collision_counterexample:
  "sort (material (example_attributes\<lparr>material := [''silk,zari'']\<rparr>))
     \<noteq> sort (material (example_attributes\<lparr>material := [''silk'', ''zari'']\<rparr>))
   \<and> (\<forall>sha. generate_item_id sha (example_attributes\<lparr>material := [''silk,zari'']\<rparr>)
            = generate_item_id sha (example_attributes\<lparr>material := [''silk'', ''zari'']\<rparr>))"
proof -
  have "sort [''silk,zari''] \<noteq> sort [''silk'', ''zari'']"
    by (simp del: sort_key_simps add: sort_key_def)
  moreover have "join '','' (sort [''silk,zari'']) = join '','' (sort [''silk'', ''zari''])"
    by simp
  ultimately show ?thesis
    by (simp add: generate_item_id_def hash_input_def id_components_def getitem_def
          example_attributes_def)
qed




section \<open>Error handlers\<close>

lemma handle_asr_error_other_stages:
  "vision_status (fst (handle_asr_error r err)) = vision_status r
   \<and> extraction_status (fst (handle_asr_error r err)) = extraction_status r
   \<and> mapping_status (fst (handle_asr_error r err)) = mapping_status r
   \<and> submission_status (fst (handle_asr_error r err)) = submission_status r
   \<and> ondc_catalog_id (fst (handle_asr_error r err)) = ondc_catalog_id r"
  by (cases err) simp_all

text \<open>
  C5, as the code has it. On an ASR failure that is neither a model timeout nor an
  unsupported language, the handler marks the stage SKIPPED, records an empty
  transcription with confidence zero and publishes nothing. On a model timeout it sets
  the stage back to PENDING and publishes the record again with high priority, leaving
  the result as it was. On an unsupported language it marks the stage FAILED, records
  the manual fallback and notifies manual review. In every case the other stages and
  the catalog identifier are untouched.
\<close>

theorem handle_asr_error_by_kind:
  "(\<forall>msg. asr_status (fst (handle_asr_error r (OtherAsrError msg))) = SKIPPED
       \<and> asr_result (fst (handle_asr_error r (OtherAsrError msg))) = Some (Transcription [] 0)
       \<and> snd (handle_asr_error r (OtherAsrError msg)) = [LoggerError (tracking_id r)])
   \<and> asr_status (fst (handle_asr_error r ModelTimeoutError)) = PENDING
   \<and> asr_result (fst (handle_asr_error r ModelTimeoutError)) = asr_result r
   \<and> snd (handle_asr_error r ModelTimeoutError) = [QueuePublish (tracking_id r) ''high'']
   \<and> asr_status (fst (handle_asr_error r UnsupportedLanguageError)) = FAILED
   \<and> asr_result (fst (handle_asr_error r UnsupportedLanguageError))
        = Some (AsrFailure ''unsupported_language'' ''manual'')
   \<and> snd (handle_asr_error r UnsupportedLanguageError) = [NotifyManualReview (tracking_id r) []]
   \<and> (\<forall>err. vision_status (fst (handle_asr_error r err)) = vision_status r
        \<and> extraction_status (fst (handle_asr_error r err)) = extraction_status r
        \<and> mapping_status (fst (handle_asr_error r err)) = mapping_status r
        \<and> submission_status (fst (handle_asr_error r err)) = submission_status r
        \<and> ondc_catalog_id (fst (handle_asr_error r err)) = ondc_catalog_id r)"
  using handle_asr_error_other_stages [of r] by simp

theorem handle_asr_error_by_kind_witness:
  "handle_asr_error example_record (OtherAsrError ''connection reset'')
     = (example_record\<lparr>asr_status := SKIPPED, asr_result := Some (Transcription [] 0)\<rparr>,
        [LoggerError ''trk-1''])
   \<and> vision_status (fst (handle_asr_error example_record (OtherAsrError ''connection reset''))) = COMPLETED"
  using handle_asr_error_by_kind [of example_record]
  by (simp add: example_record_def)

text \<open>
  C5 as stated fails: on a model timeout the stage is not SKIPPED and no empty
  transcription is recorded; the record is queued again.
\<close>

theorem handle_asr_error_timeout_counterexample:
  "asr_status (fst (handle_asr_error example_record ModelTimeoutError)) = PENDING
   \<and> asr_status (fst (handle_asr_error example_record ModelTimeoutError)) \<noteq> SKIPPED
   \<and> asr_result (fst (handle_asr_error example_record ModelTimeoutError)) = None
   \<and> snd (handle_asr_error example_record ModelTimeoutError) = [QueuePublish ''trk-1'' ''high'']"
  by (simp add: example_record_def)





lemma example_item_no_images_invalid:
  "validate_ondc_payload digits_only http_url example_item_no_images
     = Inr \<lparr>is_valid = False, errors = [''At least one image is required'']\<rparr>"
  by (simp add: validate_ondc_payload_def required_errors_def format_errors_def length_errors_def
        image_errors_def truthy_def digits_only_def example_item_no_images_def)


section \<open>Circuit breaker transitions\<close>













section \<open>Validator: hard rejections\<close>

lemma required_errors_nonempty:
  "item_name (descriptor p) = [] \<or> category_id p = []
     \<or> (case item_price p of None \<Rightarrow> True | Some pr \<Rightarrow> \<not> truthy (price_value pr))
   \<Longrightarrow> required_errors p \<noteq> []"
  by (auto simp: required_errors_def)

lemma format_errors_nonempty:
  "price_value pr = Some s \<Longrightarrow> \<not> is_valid_price s \<Longrightarrow> truthy (price_value pr)
   \<Longrightarrow> format_errors is_valid_price pr \<noteq> []"
  by (simp add: format_errors_def truthy_def)

lemma image_errors_nonempty:
  "images (descriptor p) = [] \<or> (\<exists>u \<in> set (images (descriptor p)). \<not> is_valid_url u)
   \<Longrightarrow> image_errors is_valid_url p \<noteq> []"
  by (auto simp: image_errors_def filter_empty_conv)

lemma validate_with_price:
  "item_price p = Some pr \<Longrightarrow>
     validate_ondc_payload ivp ivu p =
       Inr \<lparr>is_valid = (required_errors p @ format_errors ivp pr @ length_errors p
                           @ image_errors ivu p = []),
            errors = required_errors p @ format_errors ivp pr @ length_errors p
                       @ image_errors ivu p\<rparr>"
  by (simp add: validate_ondc_payload_def Let_def)

lemma validate_without_price:
  "item_price p = None \<Longrightarrow> validate_ondc_payload ivp ivu p = Inl AttributeError"
  by (simp add: validate_ondc_payload_def)

text \<open>
  C7. Let a catalog item have an empty name, or a price value that is missing or not
  numeric, or an empty category identifier, or no image, or an image reference that is
  not a well-formed URL. On such an item with a price object, as every mapped item has
  one, \<open>validate_ondc_payload\<close> returns \<^verbatim>\<open>is_valid = False\<close> with at least one error;
  on an item without a price object it raises. Either way no payload is handed to the
  gateway.
\<close>

theorem validate_ondc_payload_hard_rejections:
  assumes "item_name (descriptor p) = []
     \<or> (case item_price p of
           None \<Rightarrow> True
         | Some pr \<Rightarrow> \<not> truthy (price_value pr) \<or> (\<exists>s. price_value pr = Some s \<and> \<not> ivp s))
     \<or> category_id p = []
     \<or> images (descriptor p) = []
     \<or> (\<exists>u \<in> set (images (descriptor p)). \<not> ivu u)"
  shows "(\<forall>pr. item_price p = Some pr \<longrightarrow>
            (\<exists>errs. errs \<noteq> [] \<and> validate_ondc_payload ivp ivu p = Inr \<lparr>is_valid = False, errors = errs\<rparr>))
       \<and> (item_price p = None \<longrightarrow> validate_ondc_payload ivp ivu p = Inl AttributeError)
       \<and> payloads_submitted ivp ivu p = []"
proof (cases "item_price p")
  case None
  then show ?thesis by (simp add: validate_without_price payloads_submitted_def)
next
  case (Some pr)
  let ?errs = "required_errors p @ format_errors ivp pr @ length_errors p @ image_errors ivu p"
  have "required_errors p \<noteq> [] \<or> format_errors ivp pr \<noteq> [] \<or> image_errors ivu p \<noteq> []"
  proof (cases "truthy (price_value pr)")
    case True
    with assms Some show ?thesis
      using required_errors_nonempty [of p] format_errors_nonempty [of pr _ ivp]
        image_errors_nonempty [of p ivu]
      by auto
  next
    case False
    with Some show ?thesis using required_errors_nonempty [of p] by simp
  qed
  then have ne: "?errs \<noteq> []" by auto
  with Some show ?thesis
    by (simp add: validate_with_price payloads_submitted_def)
qed

theorem validate_ondc_payload_hard_rejections_witness:
  "images (descriptor example_item_no_images) = []
   \<and> validate_ondc_payload digits_only http_url example_item_no_images
       = Inr \<lparr>is_valid = False, errors = [''At least one image is required'']\<rparr>
   \<and> payloads_submitted digits_only http_url example_item_no_images = []
   \<and> \<not> digits_only ''cheap''
   \<and> (\<exists>errs. errs \<noteq> []
        \<and> validate_ondc_payload digits_only http_url
             (example_item_no_images\<lparr>item_price := Some \<lparr>currency = PyStr ''INR'', price_value = Some ''cheap''\<rparr>\<rparr>)
           = Inr \<lparr>is_valid = False, errors = errs\<rparr>)"
proof -
  let ?q = "example_item_no_images\<lparr>item_price := Some \<lparr>currency = PyStr ''INR'', price_value = Some ''cheap''\<rparr>\<rparr>"
  have h: "images (descriptor example_item_no_images) = []"
    by (simp add: example_item_no_images_def)
  then have s: "payloads_submitted digits_only http_url example_item_no_images = []"
    using validate_ondc_payload_hard_rejections [of example_item_no_images digits_only http_url]
    by blast
  have d: "\<not> digits_only ''cheap''" by (simp add: digits_only_def)
  then have "case item_price ?q of None \<Rightarrow> True
     | Some pr \<Rightarrow> \<not> truthy (price_value pr) \<or> (\<exists>s. price_value pr = Some s \<and> \<not> digits_only s)"
    by simp
  then have q: "\<exists>errs. errs \<noteq> []
        \<and> validate_ondc_payload digits_only http_url ?q = Inr \<lparr>is_valid = False, errors = errs\<rparr>"
    using validate_ondc_payload_hard_rejections [of ?q digits_only http_url] by simp
  from h s d q example_item_no_images_invalid show ?thesis by (intro conjI)
qed

section \<open>Attribute resolver: voice priority\<close>

lemma map_of_filter_key:
  "map_of (filter (\<lambda>(k, v). P k) xs) f = (if P f then map_of xs f else None)"
  by (induction xs) auto

lemma map_of_resolve_attributes:
  "map_of (resolve_attributes voice vision) f =
     (case map_of voice f of Some a \<Rightarrow> Some a | None \<Rightarrow> map_of vision f)"
  by (simp add: resolve_attributes_def map_add_def map_of_filter_key split: option.splits)

text \<open>
  C1. For every attribute field: when the voice-derived and the vision-derived
  interpretation both have the field, the resolved attributes carry the voice-derived
  value; when voice omits the field and vision supplies it, they carry the
  vision-derived value. The rule is applied field by field.
\<close>

theorem resolve_attributes_voice_priority:
  "(\<forall>a b. map_of voice f = Some a \<and> map_of vision f = Some b
       \<longrightarrow> map_of (resolve_attributes voice vision) f = Some a)
   \<and> (\<forall>b. map_of voice f = None \<and> map_of vision f = Some b
       \<longrightarrow> map_of (resolve_attributes voice vision) f = Some b)
   \<and> (\<forall>a. map_of voice f = Some a \<longrightarrow> map_of (resolve_attributes voice vision) f = Some a)"
  by (simp add: map_of_resolve_attributes)

theorem resolve_attributes_voice_priority_witness:
  "map_of voice_reading ''category'' = Some (AttrStr ''banarasi saree'')
   \<and> map_of vision_reading ''category'' = Some (AttrStr ''sari'')
   \<and> map_of (resolve_attributes voice_reading vision_reading) ''category''
        = Some (AttrStr ''banarasi saree'')
   \<and> map_of voice_reading ''colors'' = None
   \<and> map_of vision_reading ''colors'' = Some (AttrList [''red''])
   \<and> map_of (resolve_attributes voice_reading vision_reading) ''colors'' = Some (AttrList [''red''])
   \<and> map_of (resolve_attributes voice_reading vision_reading) ''price''
        = Some (AttrDict [(''value'', PyInt 2500), (''currency'', PyStr ''INR'')])"
proof -
  have v1: "map_of voice_reading ''category'' = Some (AttrStr ''banarasi saree'')"
    and v2: "map_of voice_reading ''colors'' = None"
    and v3: "map_of voice_reading ''price''
        = Some (AttrDict [(''value'', PyInt 2500), (''currency'', PyStr ''INR'')])"
    by (simp_all add: voice_reading_def)
  have i1: "map_of vision_reading ''category'' = Some (AttrStr ''sari'')"
    and i2: "map_of vision_reading ''colors'' = Some (AttrList [''red''])"
    by (simp_all add: vision_reading_def)
  from resolve_attributes_voice_priority [of voice_reading "''category''" vision_reading] v1 i1
  have r1: "map_of (resolve_attributes voice_reading vision_reading) ''category''
        = Some (AttrStr ''banarasi saree'')"
    by blast
  from resolve_attributes_voice_priority [of voice_reading "''colors''" vision_reading] v2 i2
  have r2: "map_of (resolve_attributes voice_reading vision_reading) ''colors'' = Some (AttrList [''red''])"
    by blast
  from resolve_attributes_voice_priority [of voice_reading "''price''" vision_reading] v3
  have r3: "map_of (resolve_attributes voice_reading vision_reading) ''price''
        = Some (AttrDict [(''value'', PyInt 2500), (''currency'', PyStr ''INR'')])"
    by blast
  from v1 v2 i1 i2 r1 r2 r3 show ?thesis by (intro conjI)
qed

section \<open>Submission manager: the catalog identifier\<close>

lemma handle_validation_error_catalog_id:
  "ondc_catalog_id (fst (handle_validation_error ac r errs)) = ondc_catalog_id r"
  by (simp add: handle_validation_error_def split: option.splits)

lemma handle_submission_error_catalog_id:
  "ondc_catalog_id (fst (handle_submission_error ac pve r response)) = ondc_catalog_id r"
  by (simp add: handle_submission_error_def handle_validation_error_catalog_id
        split: error_category.splits)

lemma find_existing_populated:
  "find_existing store key = Some original \<Longrightarrow>
     ondc_catalog_id original \<noteq> None \<and> idempotency_key original = key \<and> original \<in> set store"
  by (auto simp: find_existing_def find_Some_iff)

lemma submit_keeps_catalog_id:
  "ondc_catalog_id r = Some c \<Longrightarrow> ondc_catalog_id (fst (submit ac pve store r reply)) = Some c"
  by (cases reply) (simp_all add: submit_def handle_submission_error_catalog_id)

lemma submit_in_store_keeps_catalog_id:
  "i < length store \<Longrightarrow> ondc_catalog_id (store ! i) = Some c \<Longrightarrow>
     i < length (submit_in_store ac pve store ev)
     \<and> ondc_catalog_id (submit_in_store ac pve store ev ! i) = Some c"
  by (simp add: submit_in_store_def submit_keeps_catalog_id)

lemma run_submissions_keeps_catalog_id:
  "i < length store \<Longrightarrow> ondc_catalog_id (store ! i) = Some c \<Longrightarrow>
     i < length (run_submissions ac pve store evs)
     \<and> ondc_catalog_id (run_submissions ac pve store evs ! i) = Some c"
  unfolding run_submissions_def
proof (induction evs arbitrary: store)
  case Nil
  then show ?case by simp
next
  case (Cons ev evs)
  from submit_in_store_keeps_catalog_id [OF Cons.prems, of ac pve ev]
  have "i < length (submit_in_store ac pve store ev)"
    and "ondc_catalog_id (submit_in_store ac pve store ev ! i) = Some c"
    by simp_all
  from Cons.IH [OF this] show ?case by simp
qed

text \<open>
  C4. Once a record of the store has a catalog identifier, no later sequence of
  submissions, accepted or rejected, for this or any other record, changes it. A
  rejected submission of a record without identifier leaves it without one; the first
  accepted creation writes the identifier the gateway returns; an accepted update
  carries the identifier of the original record forward unchanged and increments the
  version.
\<close>

theorem ondc_catalog_id_set_once:
  "(\<forall>i c. i < length store \<and> ondc_catalog_id (store ! i) = Some c \<longrightarrow>
        i < length (run_submissions ac pve store evs)
        \<and> ondc_catalog_id (run_submissions ac pve store evs ! i) = Some c)
   \<and> (\<forall>response. ondc_catalog_id r = None \<longrightarrow>
        ondc_catalog_id (fst (submit ac pve store r (Rejected response))) = None)
   \<and> (\<forall>returned. ondc_catalog_id r = None \<and> find_existing store (idempotency_key r) = None \<longrightarrow>
        ondc_catalog_id (fst (submit ac pve store r (Accepted returned))) = Some returned)
   \<and> (\<forall>returned original.
        ondc_catalog_id r = None \<and> find_existing store (idempotency_key r) = Some original \<longrightarrow>
        ondc_catalog_id original \<noteq> None
        \<and> ondc_catalog_id (fst (submit ac pve store r (Accepted returned))) = ondc_catalog_id original
        \<and> version (fst (submit ac pve store r (Accepted returned))) = Suc (version original))
   \<and> (\<forall>returned c. ondc_catalog_id r = Some c \<longrightarrow>
        ondc_catalog_id (fst (submit ac pve store r (Accepted returned))) = Some c
        \<and> version (fst (submit ac pve store r (Accepted returned))) = Suc (version r))"
proof -
  have 1: "\<forall>i c. i < length store \<and> ondc_catalog_id (store ! i) = Some c \<longrightarrow>
        i < length (run_submissions ac pve store evs)
        \<and> ondc_catalog_id (run_submissions ac pve store evs ! i) = Some c"
    by (intro allI impI, elim conjE) (rule run_submissions_keeps_catalog_id)
  have 2: "\<forall>response. ondc_catalog_id r = None \<longrightarrow>
        ondc_catalog_id (fst (submit ac pve store r (Rejected response))) = None"
    by (simp add: submit_def handle_submission_error_catalog_id)
  have 3: "\<forall>returned. ondc_catalog_id r = None \<and> find_existing store (idempotency_key r) = None \<longrightarrow>
        ondc_catalog_id (fst (submit ac pve store r (Accepted returned))) = Some returned"
    by (simp add: submit_def)
  have 4: "\<forall>returned original.
        ondc_catalog_id r = None \<and> find_existing store (idempotency_key r) = Some original \<longrightarrow>
        ondc_catalog_id original \<noteq> None
        \<and> ondc_catalog_id (fst (submit ac pve store r (Accepted returned))) = ondc_catalog_id original
        \<and> version (fst (submit ac pve store r (Accepted returned))) = Suc (version original)"
    using find_existing_populated [of store "idempotency_key r"] by (simp add: submit_def)
  have 5: "\<forall>returned c. ondc_catalog_id r = Some c \<longrightarrow>
        ondc_catalog_id (fst (submit ac pve store r (Accepted returned))) = Some c
        \<and> version (fst (submit ac pve store r (Accepted returned))) = Suc (version r)"
    by (simp add: submit_def)
  from 1 2 3 4 5 show ?thesis by (intro conjI)
qed

theorem ondc_catalog_id_set_once_witness:
  "ondc_catalog_id ([stored_original, stored_resubmission] ! 0) = Some ''ondc-77''
   \<and> ondc_catalog_id
        (run_submissions auto_correct_truncate no_validation_errors
           [stored_original, stored_resubmission]
           [(''trk-2'', Accepted ''ondc-99''),
            (''trk-1'', Rejected \<lparr>status_code = 503, body = ''unavailable''\<rparr>),
            (''trk-1'', Accepted ''ondc-12'')] ! 0) = Some ''ondc-77''
   \<and> find_existing [stored_original, stored_resubmission] (idempotency_key stored_resubmission)
        = Some stored_original
   \<and> ondc_catalog_id (fst (submit auto_correct_truncate no_validation_errors
        [stored_original, stored_resubmission] stored_resubmission (Accepted ''ondc-99'')))
        = Some ''ondc-77''
   \<and> version (fst (submit auto_correct_truncate no_validation_errors
        [stored_original, stored_resubmission] stored_resubmission (Accepted ''ondc-99''))) = 2
   \<and> ondc_catalog_id (fst (submit auto_correct_truncate no_validation_errors
        [stored_original, stored_resubmission] stored_resubmission
        (Rejected \<lparr>status_code = 503, body = ''unavailable''\<rparr>))) = None
   \<and> find_existing [] (idempotency_key stored_resubmission) = None
   \<and> ondc_catalog_id (fst (submit auto_correct_truncate no_validation_errors
        [] stored_resubmission (Accepted ''ondc-99''))) = Some ''ondc-99''
   \<and> ondc_catalog_id (fst (submit auto_correct_truncate no_validation_errors
        [stored_original, stored_resubmission] stored_original (Accepted ''ondc-12''))) = Some ''ondc-77''
   \<and> version (fst (submit auto_correct_truncate no_validation_errors
        [stored_original, stored_resubmission] stored_original (Accepted ''ondc-12''))) = 2"
proof -
  let ?store = "[stored_original, stored_resubmission]"
  let ?evs = "[(''trk-2'', Accepted ''ondc-99''),
            (''trk-1'', Rejected \<lparr>status_code = 503, body = ''unavailable''\<rparr>),
            (''trk-1'', Accepted ''ondc-12'')]"
  note main = ondc_catalog_id_set_once
    [of ?store auto_correct_truncate no_validation_errors ?evs stored_resubmission]
  note creation = ondc_catalog_id_set_once
    [of "[]" auto_correct_truncate no_validation_errors "[]" stored_resubmission]
  note own = ondc_catalog_id_set_once
    [of ?store auto_correct_truncate no_validation_errors "[]" stored_original]
  have a: "(0::nat) < length ?store \<and> ondc_catalog_id (?store ! 0) = Some ''ondc-77''"
    by (simp add: stored_original_def)
  have n: "ondc_catalog_id stored_resubmission = None"
    by (simp add: stored_resubmission_def)
  have b: "ondc_catalog_id stored_resubmission = None
      \<and> find_existing ?store (idempotency_key stored_resubmission) = Some stored_original"
    by (simp add: find_existing_def stored_original_def stored_resubmission_def)
  have e: "ondc_catalog_id stored_resubmission = None
      \<and> find_existing [] (idempotency_key stored_resubmission) = None"
    by (simp add: find_existing_def n)
  have v: "ondc_catalog_id stored_original = Some ''ondc-77''" "Suc (version stored_original) = 2"
    by (simp_all add: stored_original_def)
  from mp [OF spec [OF spec [OF conjunct1 [OF main]]] a]
  have r1: "ondc_catalog_id (run_submissions auto_correct_truncate no_validation_errors ?store ?evs ! 0)
      = Some ''ondc-77''"
    by (rule conjunct2)
  from mp [OF spec [OF spec [OF conjunct1 [OF conjunct2 [OF conjunct2 [OF conjunct2 [OF main]]]]]] b]
  have r2: "ondc_catalog_id (fst (submit auto_correct_truncate no_validation_errors
        ?store stored_resubmission (Accepted ''ondc-99''))) = Some ''ondc-77''"
    and r3: "version (fst (submit auto_correct_truncate no_validation_errors
        ?store stored_resubmission (Accepted ''ondc-99''))) = 2"
    using v by simp_all
  have r4: "ondc_catalog_id (fst (submit auto_correct_truncate no_validation_errors
        ?store stored_resubmission (Rejected \<lparr>status_code = 503, body = ''unavailable''\<rparr>))) = None"
    by (rule mp [OF spec [OF conjunct1 [OF conjunct2 [OF main]]] n])
  have r5: "ondc_catalog_id (fst (submit auto_correct_truncate no_validation_errors
        [] stored_resubmission (Accepted ''ondc-99''))) = Some ''ondc-99''"
    by (rule mp [OF spec [OF conjunct1 [OF conjunct2 [OF conjunct2 [OF creation]]]] e])
  from mp [OF spec [OF spec [OF conjunct2 [OF conjunct2 [OF conjunct2 [OF conjunct2 [OF own]]]]]] v(1)]
  have r6: "ondc_catalog_id (fst (submit auto_correct_truncate no_validation_errors
        ?store stored_original (Accepted ''ondc-12''))) = Some ''ondc-77''"
    and r7: "version (fst (submit auto_correct_truncate no_validation_errors
        ?store stored_original (Accepted ''ondc-12''))) = 2"
    using v by simp_all
  from a b e r1 r2 r3 r4 r5 r6 r7 show ?thesis by simp
qed

end
